theory Spec2Isabelle
  imports Main "HOL-Library.Word" "HOL-Library.Sublist"
begin

section \<open>JavaScript values used by the amendment checker\<close>

text \<open>
  The checker (the file that exports \<open>comprobarModificacionArticulo\<close>) works on the JSON
  bodies of two BOE endpoints. A JavaScript string is a sequence of UTF-16 code units, and
  \<open>String.prototype.includes\<close> compares code units, so a string is a list of 16-bit words.
  A field of an object is either absent (reading it gives \<open>undefined\<close>, here \<open>None\<close>) or
  holds a value of the field's type.
\<close>

type_synonym jsstring = "16 word list"

definition lit :: "string \<Rightarrow> jsstring" where
  "lit s = map of_char s"

text \<open>\<open>h.includes(x)\<close> on strings: \<open>x\<close> occurs in \<open>h\<close> as a contiguous run of code units.\<close>

fun str_includes :: "jsstring \<Rightarrow> jsstring \<Rightarrow> bool" where
  "str_includes [] x = (x = [])"
| "str_includes (c # h) x = (prefix x (c # h) \<or> str_includes h x)"

text \<open>
  What the code can throw: a \<open>TypeError\<close> of the engine (reading a property of
  \<open>undefined\<close>, iterating over it), the \<open>RangeError\<close> of the engine when a call finds the
  call stack full, or the \<open>Error\<close> that the HTTP client rejects with and that the three
  fetchers rethrow. Each carries a \<open>message\<close>.
\<close>

datatype error = TypeError jsstring | RangeError jsstring | Error jsstring

primrec message :: "error \<Rightarrow> jsstring" where
  "message (TypeError m) = m"
| "message (RangeError m) = m"
| "message (Error m) = m"

definition undefined_error :: error where
  "undefined_error = TypeError (lit ''Cannot read properties of undefined'')"

definition not_iterable :: error where
  "not_iterable = TypeError (lit ''undefined is not iterable'')"

definition desbordamiento :: error where
  "desbordamiento = RangeError (lit ''Maximum call stack size exceeded'')"

text \<open>Truthiness: \<open>undefined\<close> and the empty string are falsy, every object and array is truthy.\<close>

definition truthy_str :: "jsstring option \<Rightarrow> bool" where
  "truthy_str v = (case v of None \<Rightarrow> False | Some s \<Rightarrow> s \<noteq> [])"

definition truthy_obj :: "'a option \<Rightarrow> bool" where
  "truthy_obj v = (case v of None \<Rightarrow> False | Some x \<Rightarrow> True)"

text \<open>\<open>ToString\<close> of a string or \<open>undefined\<close>, as \<open>includes\<close> applies it to its argument.\<close>

definition toString_js :: "jsstring option \<Rightarrow> jsstring" where
  "toString_js v = (case v of None \<Rightarrow> lit ''undefined'' | Some s \<Rightarrow> s)"

text \<open>The operations that throw on \<open>undefined\<close>: \<open>v.includes(x)\<close>, \<open>v.length\<close>, \<open>v.f\<close> and \<open>for (... of v)\<close>.\<close>

definition call_includes :: "jsstring option \<Rightarrow> jsstring option \<Rightarrow> error + bool" where
  "call_includes v x =
     (case v of None \<Rightarrow> Inl undefined_error | Some h \<Rightarrow> Inr (str_includes h (toString_js x)))"

definition get_length :: "'a list option \<Rightarrow> error + nat" where
  "get_length v = (case v of None \<Rightarrow> Inl undefined_error | Some xs \<Rightarrow> Inr (length xs))"

definition get_prop :: "'a option \<Rightarrow> ('a \<Rightarrow> 'b) \<Rightarrow> error + 'b" where
  "get_prop v f = (case v of None \<Rightarrow> Inl undefined_error | Some x \<Rightarrow> Inr (f x))"

definition for_of :: "'a list option \<Rightarrow> error + 'a list" where
  "for_of v = (case v of None \<Rightarrow> Inl not_iterable | Some xs \<Rightarrow> Inr xs)"

text \<open>\<open>items || []\<close> and \<open>v || 'No disponible'\<close>.\<close>

definition or_vacio :: "'a list option \<Rightarrow> 'a list" where
  "or_vacio v = (case v of None \<Rightarrow> [] | Some xs \<Rightarrow> xs)"

definition or_texto :: "jsstring option \<Rightarrow> jsstring \<Rightarrow> jsstring" where
  "or_texto v d = (case v of None \<Rightarrow> d | Some s \<Rightarrow> if s = [] then d else s)"

text \<open>
  A \<open>Date\<close> is its time value: an integral number of milliseconds, or \<open>NaN\<close> (\<open>None\<close>) for an
  invalid date. \<open>new Date(v)\<close> of \<open>undefined\<close> is invalid; of a string it is \<open>Date.parse\<close>,
  which belongs to the engine and is a parameter \<open>parse\<close> of the model. Two dates are
  compared by their time values, and every comparison with \<open>NaN\<close> is false.
\<close>

type_synonym date = "int option"

definition new_Date :: "(jsstring \<Rightarrow> int option) \<Rightarrow> jsstring option \<Rightarrow> date" where
  "new_Date parse v = (case v of None \<Rightarrow> None | Some s \<Rightarrow> parse s)"

definition date_ge :: "date \<Rightarrow> date \<Rightarrow> bool" where
  "date_ge a b = (case a of None \<Rightarrow> False | Some x \<Rightarrow> (case b of None \<Rightarrow> False | Some y \<Rightarrow> y \<le> x))"

definition date_gt :: "date \<Rightarrow> date \<Rightarrow> bool" where
  "date_gt a b = (case a of None \<Rightarrow> False | Some x \<Rightarrow> (case b of None \<Rightarrow> False | Some y \<Rightarrow> y < x))"

section \<open>The index and \<open>buscarArticuloEnIndice\<close>\<close>

text \<open>
  An entry of the index has a kind \<open>tipo\<close>, a title \<open>titulo\<close>, an \<open>id\<close> and sub-entries
  \<open>items\<close>; the index itself has \<open>items\<close>.
\<close>

datatype item = Item (tipo: "jsstring option") (titulo: "jsstring option")
  (item_id: "jsstring option") (items: "item list option")

record indice =
  indice_items :: "item list option"

text \<open>The code units of \<open>Art\<acute>iculo\<close> followed by a space: the letter after \<open>Art\<close> is U+00ED.\<close>

definition articulo_prefijo :: jsstring where
  "articulo_prefijo = lit ''Art'' @ [0xED] @ lit ''culo ''"

text \<open>
  \<open>item.tipo === 'articulo' && item.titulo && item.titulo.includes(`Art\<acute>iculo ${numeroArticulo}`)\<close>
\<close>

definition coincide :: "jsstring \<Rightarrow> item \<Rightarrow> error + bool" where
  "coincide numeroArticulo it =
     (if tipo it = Some (lit ''articulo'') then
        (if truthy_str (titulo it)
         then call_includes (titulo it) (Some (articulo_prefijo @ numeroArticulo))
         else Inr False)
      else Inr False)"

text \<open>\<open>item.items && item.items.length > 0\<close>\<close>

definition tiene_items :: "item \<Rightarrow> error + bool" where
  "tiene_items it =
     (if truthy_obj (items it) then
        (case get_length (items it) of Inl e \<Rightarrow> Inl e | Inr l \<Rightarrow> Inr (0 < l))
      else Inr False)"

text \<open>
  The loop of \<open>buscarEnItems\<close> over \<open>items || []\<close>: the entry is tested first, then its
  sub-entries are searched, then the loop goes on with the next entry. This is the search
  on a call stack that never fills up; \<open>buscarEnItems_pila\<close> below is the same search on
  the stack the engine has.
\<close>

function buscarEnItems :: "jsstring \<Rightarrow> item list \<Rightarrow> error + item option" where
  "buscarEnItems numeroArticulo [] = Inr None"
| "buscarEnItems numeroArticulo (it # rest) =
     (case coincide numeroArticulo it of
        Inl e \<Rightarrow> Inl e
      | Inr True \<Rightarrow> Inr (Some it)
      | Inr False \<Rightarrow>
          (case tiene_items it of
             Inl e \<Rightarrow> Inl e
           | Inr False \<Rightarrow> buscarEnItems numeroArticulo rest
           | Inr True \<Rightarrow>
               (case buscarEnItems numeroArticulo (or_vacio (items it)) of
                  Inl e \<Rightarrow> Inl e
                | Inr (Some encontrado) \<Rightarrow> Inr (Some encontrado)
                | Inr None \<Rightarrow> buscarEnItems numeroArticulo rest)))"
  by pat_completeness auto
termination
proof (relation "measure (\<lambda>(n, its). size_list size its)")
  fix n :: jsstring and it :: item and rest :: "item list"
  have "size_list size (or_vacio (items it)) < size it"
    by (cases it; cases "items it") (simp_all add: or_vacio_def)
  then show "((n, or_vacio (items it)), (n, it # rest)) \<in> measure (\<lambda>(n, its). size_list size its)"
    by simp
qed simp_all

definition buscarArticuloEnIndice :: "indice \<Rightarrow> jsstring \<Rightarrow> error + item option" where
  "buscarArticuloEnIndice indice numeroArticulo =
     buscarEnItems numeroArticulo (or_vacio (indice_items indice))"

text \<open>
  The source puts no bound on the nesting it descends: \<open>buscarEnItems\<close> calls itself once
  for each level of the index, and each call takes a frame of the engine's call stack.
  Here \<open>pila\<close> is the number of nested calls of \<open>buscarEnItems\<close> that the stack still
  holds; a call that finds none left throws the engine's \<open>RangeError\<close>, which nothing
  between the call and \<open>buscarArticuloEnIndice\<close> catches. The loop over the entries of
  one level stays in one frame.
\<close>

fun buscarEnItems_pila :: "nat \<Rightarrow> jsstring \<Rightarrow> item list \<Rightarrow> error + item option" where
  "buscarEnItems_pila 0 numeroArticulo its = Inl desbordamiento"
| "buscarEnItems_pila (Suc pila) numeroArticulo [] = Inr None"
| "buscarEnItems_pila (Suc pila) numeroArticulo (it # rest) =
     (case coincide numeroArticulo it of
        Inl e \<Rightarrow> Inl e
      | Inr True \<Rightarrow> Inr (Some it)
      | Inr False \<Rightarrow>
          (case tiene_items it of
             Inl e \<Rightarrow> Inl e
           | Inr False \<Rightarrow> buscarEnItems_pila (Suc pila) numeroArticulo rest
           | Inr True \<Rightarrow>
               (case buscarEnItems_pila pila numeroArticulo (or_vacio (items it)) of
                  Inl e \<Rightarrow> Inl e
                | Inr (Some encontrado) \<Rightarrow> Inr (Some encontrado)
                | Inr None \<Rightarrow> buscarEnItems_pila (Suc pila) numeroArticulo rest)))"


section \<open>The analysis and \<open>buscarModificacionesArticulo\<close>\<close>

record modificacion =
  afectado :: "jsstring option"
  fecha :: "jsstring option"
  referencia :: "jsstring option"
  texto :: "jsstring option"

record analisis_ley =
  modificaciones :: "modificacion list option"

record respuesta_analisis =
  analisis :: "analisis_ley option"

record detalle =
  d_fecha :: "jsstring option"
  d_referencia :: jsstring
  d_texto :: jsstring

record resultado =
  modificado :: bool
  fechaUltimaModificacion :: "jsstring option"
  detalles :: "detalle list"

text \<open>\<open>modificacion.afectado && modificacion.afectado.includes(articuloId)\<close>\<close>

definition afecta :: "jsstring option \<Rightarrow> modificacion \<Rightarrow> error + bool" where
  "afecta articuloId m =
     (if truthy_str (afectado m) then call_includes (afectado m) articuloId else Inr False)"

text \<open>
  \<open>!resultado.fechaUltimaModificacion || fechaMod > new Date(resultado.fechaUltimaModificacion)\<close>
\<close>

definition es_posterior :: "(jsstring \<Rightarrow> int option) \<Rightarrow> date \<Rightarrow> jsstring option \<Rightarrow> bool" where
  "es_posterior parse fechaMod ultima =
     (if truthy_str ultima then date_gt fechaMod (new_Date parse ultima) else True)"

definition detalle_de :: "modificacion \<Rightarrow> detalle" where
  "detalle_de m =
     \<lparr> d_fecha = fecha m,
       d_referencia = or_texto (referencia m) (lit ''No disponible''),
       d_texto = or_texto (texto m) (lit ''No disponible'') \<rparr>"

text \<open>One round of the loop over the amendments, on the \<open>resultado\<close> built so far.\<close>

definition paso ::
  "(jsstring \<Rightarrow> int option) \<Rightarrow> jsstring option \<Rightarrow> date \<Rightarrow> resultado \<Rightarrow> modificacion
     \<Rightarrow> error + resultado" where
  "paso parse articuloId fechaReferencia res m =
     (case afecta articuloId m of
        Inl e \<Rightarrow> Inl e
      | Inr False \<Rightarrow> Inr res
      | Inr True \<Rightarrow>
          (let fechaMod = new_Date parse (fecha m) in
           if date_ge fechaMod fechaReferencia then
             Inr \<lparr> modificado = True,
                   fechaUltimaModificacion =
                     (if es_posterior parse fechaMod (fechaUltimaModificacion res)
                      then fecha m else fechaUltimaModificacion res),
                   detalles = detalles res @ [detalle_de m] \<rparr>
           else Inr res))"

fun recorrer ::
  "(jsstring \<Rightarrow> int option) \<Rightarrow> jsstring option \<Rightarrow> date \<Rightarrow> resultado \<Rightarrow> modificacion list
     \<Rightarrow> error + resultado" where
  "recorrer parse articuloId fechaReferencia res [] = Inr res"
| "recorrer parse articuloId fechaReferencia res (m # ms) =
     (case paso parse articuloId fechaReferencia res m of
        Inl e \<Rightarrow> Inl e
      | Inr res' \<Rightarrow> recorrer parse articuloId fechaReferencia res' ms)"

definition resultado_inicial :: resultado where
  "resultado_inicial = \<lparr> modificado = False, fechaUltimaModificacion = None, detalles = [] \<rparr>"

definition buscarModificacionesArticulo ::
  "(jsstring \<Rightarrow> int option) \<Rightarrow> respuesta_analisis \<Rightarrow> jsstring option \<Rightarrow> date
     \<Rightarrow> error + resultado" where
  "buscarModificacionesArticulo parse an articuloId fechaReferencia =
     (if \<not> truthy_obj (analisis an) then Inr resultado_inicial
      else
        (case get_prop (analisis an) modificaciones of
           Inl e \<Rightarrow> Inl e
         | Inr mods \<Rightarrow>
             if \<not> truthy_obj mods then Inr resultado_inicial
             else
               (case for_of mods of
                  Inl e \<Rightarrow> Inl e
                | Inr ms \<Rightarrow> recorrer parse articuloId fechaReferencia resultado_inicial ms)))"

section \<open>The fetchers and \<open>comprobarModificacionArticulo\<close>\<close>

text \<open>
  \<open>axios.get(url)\<close> is the environment: a function from the URL to the body of the response
  (\<open>response.data\<close>) or to the error it rejects with. Each fetcher builds its URL, and
  rethrows what \<open>axios.get\<close> throws after logging it; the log is not part of the model.
\<close>

definition BASE_URL :: jsstring where
  "BASE_URL = lit ''https://www.boe.es/datosabiertos/api''"

definition obtenerAnalisisLey :: "(jsstring \<Rightarrow> error + 'a) \<Rightarrow> jsstring \<Rightarrow> error + 'a" where
  "obtenerAnalisisLey axios_get docId =
     (case axios_get (BASE_URL @ lit ''/legislacion-consolidada/id/'' @ docId @ lit ''/analisis'') of
        Inl e \<Rightarrow> Inl e
      | Inr datos \<Rightarrow> Inr datos)"

definition obtenerIndice :: "(jsstring \<Rightarrow> error + 'a) \<Rightarrow> jsstring \<Rightarrow> error + 'a" where
  "obtenerIndice axios_get docId =
     (case axios_get (BASE_URL @ lit ''/legislacion-consolidada/id/'' @ docId @ lit ''/texto/indice'') of
        Inl e \<Rightarrow> Inl e
      | Inr datos \<Rightarrow> Inr datos)"

text \<open>
  The object that \<open>comprobarModificacionArticulo\<close> returns has one of three shapes; a field
  that a shape does not have is \<open>None\<close>.
\<close>

record comprobacion =
  encontrado :: bool
  mensaje :: "jsstring option"
  error_mensaje :: "jsstring option"
  c_articuloId :: "jsstring option"
  c_titulo :: "jsstring option"
  c_modificado :: "bool option"
  c_fechaUltimaModificacion :: "jsstring option"
  detallesModificacion :: "detalle list option"

definition no_encontrado :: "jsstring \<Rightarrow> jsstring \<Rightarrow> comprobacion" where
  "no_encontrado numeroArticulo docId =
     \<lparr> encontrado = False,
       mensaje = Some (lit ''No se encontr'' @ [0xF3] @ lit '' el art'' @ [0xED] @ lit ''culo ''
                        @ numeroArticulo @ lit '' en el documento '' @ docId),
       error_mensaje = None, c_articuloId = None, c_titulo = None, c_modificado = None,
       c_fechaUltimaModificacion = None, detallesModificacion = None \<rparr>"

definition con_error :: "error \<Rightarrow> comprobacion" where
  "con_error e =
     \<lparr> encontrado = False, mensaje = None, error_mensaje = Some (message e),
       c_articuloId = None, c_titulo = None, c_modificado = None,
       c_fechaUltimaModificacion = None, detallesModificacion = None \<rparr>"

definition comprobado :: "item \<Rightarrow> resultado \<Rightarrow> comprobacion" where
  "comprobado articulo mods =
     \<lparr> encontrado = True, mensaje = None, error_mensaje = None,
       c_articuloId = item_id articulo, c_titulo = titulo articulo,
       c_modificado = Some (modificado mods),
       c_fechaUltimaModificacion = fechaUltimaModificacion mods,
       detallesModificacion = Some (detalles mods) \<rparr>"

text \<open>The body of the \<open>try\<close> block.\<close>

definition comprobar_try ::
  "(jsstring \<Rightarrow> error + indice) \<Rightarrow> (jsstring \<Rightarrow> error + respuesta_analisis)
     \<Rightarrow> (jsstring \<Rightarrow> int option) \<Rightarrow> jsstring \<Rightarrow> jsstring \<Rightarrow> date \<Rightarrow> error + comprobacion" where
  "comprobar_try get_indice get_analisis parse docId numeroArticulo fechaReferencia =
     (case obtenerIndice get_indice docId of
        Inl e \<Rightarrow> Inl e
      | Inr indice \<Rightarrow>
          (case buscarArticuloEnIndice indice numeroArticulo of
             Inl e \<Rightarrow> Inl e
           | Inr None \<Rightarrow> Inr (no_encontrado numeroArticulo docId)
           | Inr (Some articulo) \<Rightarrow>
               (case obtenerAnalisisLey get_analisis docId of
                  Inl e \<Rightarrow> Inl e
                | Inr an \<Rightarrow>
                    (case buscarModificacionesArticulo parse an (item_id articulo) fechaReferencia of
                       Inl e \<Rightarrow> Inl e
                     | Inr mods \<Rightarrow> Inr (comprobado articulo mods)))))"

text \<open>The \<open>try\<close> with its \<open>catch\<close>: whatever the body throws becomes the \<open>error\<close> field.\<close>

definition comprobarModificacionArticulo ::
  "(jsstring \<Rightarrow> error + indice) \<Rightarrow> (jsstring \<Rightarrow> error + respuesta_analisis)
     \<Rightarrow> (jsstring \<Rightarrow> int option) \<Rightarrow> jsstring \<Rightarrow> jsstring \<Rightarrow> date \<Rightarrow> error + comprobacion" where
  "comprobarModificacionArticulo get_indice get_analisis parse docId numeroArticulo fechaReferencia =
     (case comprobar_try get_indice get_analisis parse docId numeroArticulo fechaReferencia of
        Inl e \<Rightarrow> Inr (con_error e)
      | Inr r \<Rightarrow> Inr r)"

section \<open>The specification's notions\<close>

text \<open>
  The match of the Index Locator in the words of its contract: the kind is the article tag
  and the label contains the code units of \<open>Art\<acute>iculo\<close>, a space and the number.
\<close>

definition spec_match :: "jsstring \<Rightarrow> item \<Rightarrow> bool" where
  "spec_match numero it =
     (tipo it = Some (lit ''articulo'') \<and>
      (case titulo it of None \<Rightarrow> False
       | Some s \<Rightarrow> str_includes s (articulo_prefijo @ numero)))"

text \<open>
  The same match made case-insensitive, as the contract asks: both sides are lowered first.
  \<open>minuscula\<close> lowers the letters of Basic Latin and of the Latin-1 Supplement, which
  hold every letter of \<open>Art\<acute>iculo\<close>; it leaves every other code unit as it is.
\<close>

definition minuscula :: "16 word \<Rightarrow> 16 word" where
  "minuscula c =
     (if (0x41 \<le> c \<and> c \<le> 0x5A) \<or> (0xC0 \<le> c \<and> c \<le> 0xDE \<and> c \<noteq> 0xD7) then c + 0x20 else c)"

definition spec_match_sin_caja :: "jsstring \<Rightarrow> item \<Rightarrow> bool" where
  "spec_match_sin_caja numero it =
     (tipo it = Some (lit ''articulo'') \<and>
      (case titulo it of None \<Rightarrow> False
       | Some s \<Rightarrow> str_includes (map minuscula s) (map minuscula (articulo_prefijo @ numero))))"

text \<open>
  The entries of a forest in depth-first pre-order: an entry, then the pre-order of its
  children in their stored order, then the entries after it.
\<close>

function preorden :: "item list \<Rightarrow> item list" where
  "preorden [] = []"
| "preorden (it # rest) = it # preorden (or_vacio (items it)) @ preorden rest"
  by pat_completeness auto
termination
proof (relation "measure (size_list size)")
  fix it :: item and rest :: "item list"
  have "size_list size (or_vacio (items it)) < size it"
    by (cases it; cases "items it") (simp_all add: or_vacio_def)
  then show "(or_vacio (items it), it # rest) \<in> measure (size_list size)"
    by simp
qed simp_all


text \<open>
  The amendments collection of an analysis, empty when the analysis has none, and the
  records that qualify: \<open>afectado\<close> is there, is not empty and contains the article's id,
  and the record's date is a valid date not before the reference date.
\<close>

definition modificaciones_de :: "respuesta_analisis \<Rightarrow> modificacion list" where
  "modificaciones_de an =
     (case analisis an of None \<Rightarrow> [] | Some a \<Rightarrow> or_vacio (modificaciones a))"

definition califica ::
  "(jsstring \<Rightarrow> int option) \<Rightarrow> jsstring option \<Rightarrow> date \<Rightarrow> modificacion \<Rightarrow> bool" where
  "califica parse articuloId fechaReferencia m =
     ((case afectado m of None \<Rightarrow> False
       | Some s \<Rightarrow> s \<noteq> [] \<and> str_includes s (toString_js articuloId)) \<and>
      date_ge (new_Date parse (fecha m)) fechaReferencia)"

text \<open>
  Position \<open>i\<close> holds the first of the latest records of \<open>qs\<close>: no record of \<open>qs\<close> is
  later, and every record before position \<open>i\<close> is strictly earlier.
\<close>

definition es_primera_maxima ::
  "(jsstring \<Rightarrow> int option) \<Rightarrow> modificacion list \<Rightarrow> nat \<Rightarrow> bool" where
  "es_primera_maxima parse qs i =
     (i < length qs \<and>
      list_all (\<lambda>q. date_ge (new_Date parse (fecha (qs ! i))) (new_Date parse (fecha q))) qs \<and>
      list_all (\<lambda>q. date_gt (new_Date parse (fecha (qs ! i))) (new_Date parse (fecha q)))
        (take i qs))"

section \<open>A date parser for the examples\<close>

text \<open>
  One instance of \<open>Date.parse\<close>, used where an example needs dates: the date-only form
  \<open>YYYY-MM-DD\<close> of the ECMAScript date-time format, read as midnight UTC. Every other
  string is not a date for it.
\<close>

definition digito :: "16 word \<Rightarrow> int option" where
  "digito c = (if 0x30 \<le> c \<and> c \<le> 0x39 then Some (uint c - 48) else None)"

fun numero_de :: "int \<Rightarrow> jsstring \<Rightarrow> int option" where
  "numero_de acc [] = Some acc"
| "numero_de acc (c # cs) =
     (case digito c of None \<Rightarrow> None | Some d \<Rightarrow> numero_de (10 * acc + d) cs)"

definition es_bisiesto :: "int \<Rightarrow> bool" where
  "es_bisiesto y = (y mod 4 = 0 \<and> (y mod 100 \<noteq> 0 \<or> y mod 400 = 0))"

definition dias_del_mes :: "int \<Rightarrow> int \<Rightarrow> int" where
  "dias_del_mes y m =
     (if m = 2 then (if es_bisiesto y then 29 else 28)
      else if m = 4 \<or> m = 6 \<or> m = 9 \<or> m = 11 then 30 else 31)"

definition dias_desde_epoca :: "int \<Rightarrow> int \<Rightarrow> int \<Rightarrow> int" where
  "dias_desde_epoca y m d =
     (let y' = (if m \<le> 2 then y - 1 else y);
          era = y' div 400;
          yoe = y' - era * 400;
          doy = (153 * (if 2 < m then m - 3 else m + 9) + 2) div 5 + d - 1;
          doe = yoe * 365 + yoe div 4 - yoe div 100 + doy
      in era * 146097 + doe - 719468)"

definition parse_iso :: "jsstring \<Rightarrow> int option" where
  "parse_iso s =
     (if length s = 10 \<and> s ! 4 = 0x2D \<and> s ! 7 = 0x2D then
        (case numero_de 0 (take 4 s) of
           None \<Rightarrow> None
         | Some y \<Rightarrow>
             (case numero_de 0 (take 2 (drop 5 s)) of
                None \<Rightarrow> None
              | Some m \<Rightarrow>
                  (case numero_de 0 (drop 8 s) of
                     None \<Rightarrow> None
                   | Some d \<Rightarrow>
                       if 1 \<le> m \<and> m \<le> 12 \<and> 1 \<le> d \<and> d \<le> dias_del_mes y m
                       then Some (dias_desde_epoca y m d * 86400000)
                       else None)))
      else None)"

section \<open>Example data\<close>

text \<open>Index entries: a book holding article 51, then the articles 51 bis, 5 and 51 in capitals.\<close>

definition entrada_51 :: item where
  "entrada_51 =
     Item (Some (lit ''articulo'')) (Some (articulo_prefijo @ lit ''51'')) (Some (lit ''a51'')) None"

definition entrada_51_bis :: item where
  "entrada_51_bis =
     Item (Some (lit ''articulo'')) (Some (articulo_prefijo @ lit ''51 bis'')) (Some (lit ''a51b''))
       (Some [])"

definition entrada_5 :: item where
  "entrada_5 =
     Item (Some (lit ''articulo'')) (Some (articulo_prefijo @ lit ''5'')) (Some (lit ''a5'')) None"

definition libro_I :: item where
  "libro_I = Item (Some (lit ''libro'')) (Some (lit ''Libro I'')) (Some (lit ''l1'')) (Some [entrada_51])"

definition entrada_mayusculas :: item where
  "entrada_mayusculas =
     Item (Some (lit ''articulo'')) (Some (lit ''ART'' @ [0xCD] @ lit ''CULO 51''))
       (Some (lit ''a51'')) None"




text \<open>
  Amendments: two that touch article 51, one that touches another article, one whose date
  is not a date; and the analysis that holds a given list of amendments.
\<close>

definition mod_enero :: modificacion where
  "mod_enero =
     \<lparr> afectado = Some (lit ''a51''), fecha = Some (lit ''2020-01-01''),
       referencia = Some (lit ''BOE-A-2020-1''), texto = None \<rparr>"

definition mod_junio :: modificacion where
  "mod_junio =
     \<lparr> afectado = Some (lit ''a50 a51 a52''), fecha = Some (lit ''2020-06-01''),
       referencia = None, texto = Some (lit ''Se modifica'') \<rparr>"

definition mod_otro :: modificacion where
  "mod_otro =
     \<lparr> afectado = Some (lit ''a7''), fecha = Some (lit ''2021-03-15''),
       referencia = None, texto = None \<rparr>"

definition mod_sin_fecha_valida :: modificacion where
  "mod_sin_fecha_valida =
     \<lparr> afectado = Some (lit ''a51''), fecha = Some (lit ''pronto''),
       referencia = None, texto = None \<rparr>"

definition analisis_con :: "modificacion list \<Rightarrow> respuesta_analisis" where
  "analisis_con ms = \<lparr> analisis = Some \<lparr> modificaciones = Some ms \<rparr> \<rparr>"

text \<open>Environments: requests that are rejected, and requests that are answered.\<close>

definition indice_falla :: "jsstring \<Rightarrow> error + indice" where
  "indice_falla url = Inl (Error (lit ''Request failed with status code 404''))"

definition analisis_falla :: "jsstring \<Rightarrow> error + respuesta_analisis" where
  "analisis_falla url = Inl (Error (lit ''Request failed with status code 404''))"

definition axios_indice_51 :: "jsstring \<Rightarrow> error + indice" where
  "axios_indice_51 url = Inr \<lparr> indice_items = Some [libro_I, entrada_51_bis] \<rparr>"

definition axios_analisis_51 :: "jsstring \<Rightarrow> error + respuesta_analisis" where
  "axios_analisis_51 url = Inr (analisis_con [mod_enero])"

section \<open>Properties of \<open>buscarArticuloEnIndice\<close>\<close>

lemma str_includes_iff: "str_includes h x \<longleftrightarrow> (\<exists>ps ss. h = ps @ x @ ss)"
proof (induction h)
  case Nil
  then show ?case by auto
next
  case (Cons c h)
  show ?case
  proof
    assume "str_includes (c # h) x"
    then consider "prefix x (c # h)" | "str_includes h x" by auto
    then show "\<exists>ps ss. c # h = ps @ x @ ss"
    proof cases
      case 1
      then obtain ss where "c # h = x @ ss" by (auto simp: prefix_def)
      then have "c # h = [] @ x @ ss" by simp
      then show ?thesis by blast
    next
      case 2
      then obtain ps ss where "h = ps @ x @ ss" using Cons.IH by auto
      then have "c # h = (c # ps) @ x @ ss" by simp
      then show ?thesis by blast
    qed
  next
    assume "\<exists>ps ss. c # h = ps @ x @ ss"
    then obtain ps ss where e: "c # h = ps @ x @ ss" by auto
    show "str_includes (c # h) x"
    proof (cases ps)
      case Nil
      then have "prefix x (c # h)" using e by (auto simp: prefix_def)
      then show ?thesis by simp
    next
      case (Cons p ps')
      then have "h = ps' @ x @ ss" using e by simp
      then have "str_includes h x" using Cons.IH by blast
      then show ?thesis by simp
    qed
  qed
qed

lemma articulo_prefijo_not_Nil: "articulo_prefijo \<noteq> []"
  by (simp add: articulo_prefijo_def lit_def)

text \<open>
  Neither test of the loop throws: the guards \<open>item.titulo &&\<close> and \<open>item.items &&\<close> keep
  \<open>includes\<close> and \<open>length\<close> away from \<open>undefined\<close>. The first test is the contract's match.
\<close>

lemma coincide_Inr: "coincide n it = Inr (spec_match n it)"
  by (cases "titulo it")
     (auto simp: coincide_def spec_match_def truthy_str_def call_includes_def toString_js_def
        articulo_prefijo_not_Nil)

lemma tiene_items_Inr: "tiene_items it = Inr (or_vacio (items it) \<noteq> [])"
  by (cases "items it")
     (auto simp: tiene_items_def truthy_obj_def get_length_def or_vacio_def)

lemma find_append_case:
  "find P (xs @ ys) = (case find P xs of None \<Rightarrow> find P ys | Some x \<Rightarrow> Some x)"
  by (induction xs) auto

lemma find_first:
  "xs = pre @ x # post \<Longrightarrow> P x \<Longrightarrow> \<forall>y \<in> set pre. \<not> P y \<Longrightarrow> find P xs = Some x"
  by (induction pre arbitrary: xs) auto


text \<open>The search is the first match of the pre-order, by induction along its own recursion.\<close>

lemma buscarEnItems_find: "buscarEnItems n its = Inr (find (spec_match n) (preorden its))"
proof (induction n its rule: buscarEnItems.induct)
  case (1 n)
  show ?case by simp
next
  case (2 n it rest)
  show ?case
  proof (cases "spec_match n it")
    case True
    then show ?thesis by (simp add: coincide_Inr)
  next
    case nomatch: False
    show ?thesis
    proof (cases "or_vacio (items it) = []")
      case True
      then show ?thesis
        using nomatch 2 by (simp add: coincide_Inr tiene_items_Inr)
    next
      case False
      have ih1: "buscarEnItems n (or_vacio (items it)) =
                 Inr (find (spec_match n) (preorden (or_vacio (items it))))"
        using 2 nomatch False by (simp add: coincide_Inr tiene_items_Inr)
      show ?thesis
      proof (cases "find (spec_match n) (preorden (or_vacio (items it)))")
        case None
        then have "buscarEnItems n rest = Inr (find (spec_match n) (preorden rest))"
          using 2 nomatch False ih1 by (simp add: coincide_Inr tiene_items_Inr)
        then show ?thesis
          using nomatch False ih1 None
          by (simp add: coincide_Inr tiene_items_Inr find_append_case)
      next
        case (Some a)
        then show ?thesis
          using nomatch False ih1
          by (simp add: coincide_Inr tiene_items_Inr find_append_case)
      qed
    qed
  qed
qed






lemma buscarEnItems_pila_Inr:
  "buscarEnItems_pila pila n its = Inr r \<Longrightarrow> buscarEnItems n its = Inr r"
proof (induction pila n its arbitrary: r rule: buscarEnItems_pila.induct)
  case (1 n its)
  then show ?case by simp
next
  case (2 pila n)
  then show ?case by simp
next
  case (3 pila n it rest)
  show ?case
  proof (cases "spec_match n it")
    case True
    then show ?thesis using "3.prems" by (simp add: coincide_Inr)
  next
    case nomatch: False
    show ?thesis
    proof (cases "or_vacio (items it) = []")
      case True
      then show ?thesis
        using nomatch "3.prems" "3.IH" by (simp add: coincide_Inr tiene_items_Inr)
    next
      case False
      show ?thesis
      proof (cases "buscarEnItems_pila pila n (or_vacio (items it))")
        case (Inl e)
        then show ?thesis
          using nomatch False "3.prems" by (simp add: coincide_Inr tiene_items_Inr)
      next
        case (Inr q)
        then have hijos: "buscarEnItems n (or_vacio (items it)) = Inr q"
          using "3.IH" nomatch False by (simp add: coincide_Inr tiene_items_Inr)
        show ?thesis
        proof (cases q)
          case None
          then have "buscarEnItems_pila (Suc pila) n rest = Inr r"
            using "3.prems" nomatch False Inr by (simp add: coincide_Inr tiene_items_Inr)
          then have "buscarEnItems n rest = Inr r"
            using "3.IH" nomatch False Inr None by (simp add: coincide_Inr tiene_items_Inr)
          then show ?thesis
            using nomatch False hijos None by (simp add: coincide_Inr tiene_items_Inr)
        next
          case (Some a)
          then show ?thesis
            using "3.prems" nomatch False Inr hijos by (auto simp: coincide_Inr tiene_items_Inr)
        qed
      qed
    qed
  qed
qed




text \<open>
  The entry titled with the capitals of \<open>Art\<acute>iculo 51\<close> matches the number 51 when case
  is ignored, and the search for 51 in an index that holds only this entry finds nothing.
\<close>

theorem buscarArticuloEnIndice_mayusculas_counterexample:
  "spec_match_sin_caja (lit ''51'') entrada_mayusculas \<and>
   buscarArticuloEnIndice \<lparr> indice_items = Some [entrada_mayusculas] \<rparr> (lit ''51'') = Inr None"
  by (simp add: spec_match_sin_caja_def entrada_mayusculas_def
      buscarArticuloEnIndice_def or_vacio_def coincide_def tiene_items_def truthy_str_def
      truthy_obj_def call_includes_def toString_js_def articulo_prefijo_def lit_def minuscula_def)

text \<open>
  Claim C3, amended. The Index Locator returns the first entry, in pre-order, whose kind is
  the article tag and whose label contains the code units of \<open>Art\<acute>iculo\<close>, a space and the
  number exactly as they are, so the match is case-sensitive; it returns no entry when the
  index has no such entry.
\<close>

theorem buscarArticuloEnIndice_coincidencia_exacta:
  "buscarArticuloEnIndice indice n =
     Inr (find (spec_match n) (preorden (or_vacio (indice_items indice)))) \<and>
   spec_match n it =
     (tipo it = Some (lit ''articulo'') \<and>
      (\<exists>s ps ss. titulo it = Some s \<and> s = ps @ articulo_prefijo @ n @ ss))"
proof -
  have "spec_match n it =
     (tipo it = Some (lit ''articulo'') \<and>
      (\<exists>s ps ss. titulo it = Some s \<and> s = ps @ articulo_prefijo @ n @ ss))"
    by (cases "titulo it") (auto simp: spec_match_def str_includes_iff)
  then show ?thesis
    by (simp add: buscarArticuloEnIndice_def buscarEnItems_find)
qed

text \<open>
  Claim C4. When several entries match, the Index Locator returns the one that comes first
  in the depth-first pre-order of the index: the entry \<open>x\<close> matches and no entry before it in
  the pre-order does.
\<close>

theorem buscarArticuloEnIndice_primero_en_preorden:
  assumes "preorden (or_vacio (indice_items indice)) = antes @ x # despues"
    and "spec_match n x"
    and "\<forall>y \<in> set antes. \<not> spec_match n y"
  shows "buscarArticuloEnIndice indice n = Inr (Some x)"
  using assms by (simp add: buscarArticuloEnIndice_def buscarEnItems_find find_first)

text \<open>
  Article 51 inside the book and article 51 bis after the book both match the number 51;
  the nested one comes first in the pre-order and is returned.
\<close>

theorem buscarArticuloEnIndice_primero_en_preorden_witness:
  "preorden (or_vacio (indice_items \<lparr> indice_items = Some [libro_I, entrada_51_bis] \<rparr>))
     = [libro_I] @ entrada_51 # [entrada_51_bis] \<and>
   spec_match (lit ''51'') entrada_51 \<and>
   spec_match (lit ''51'') entrada_51_bis \<and>
   \<not> spec_match (lit ''51'') libro_I \<and>
   buscarArticuloEnIndice \<lparr> indice_items = Some [libro_I, entrada_51_bis] \<rparr> (lit ''51'')
     = Inr (Some entrada_51)"
proof -
  have p: "preorden (or_vacio (indice_items \<lparr> indice_items = Some [libro_I, entrada_51_bis] \<rparr>))
     = [libro_I] @ entrada_51 # [entrada_51_bis]"
    by (simp add: or_vacio_def libro_I_def entrada_51_def entrada_51_bis_def)
  have m1: "spec_match (lit ''51'') entrada_51"
    by (simp add: spec_match_def entrada_51_def articulo_prefijo_def lit_def)
  have m2: "spec_match (lit ''51'') entrada_51_bis"
    by (simp add: spec_match_def entrada_51_bis_def articulo_prefijo_def lit_def)
  have m3: "\<not> spec_match (lit ''51'') libro_I"
    by (simp add: spec_match_def libro_I_def lit_def)
  have m4: "\<forall>y \<in> set [libro_I]. \<not> spec_match (lit ''51'') y"
    using m3 by simp
  show ?thesis
    using p m1 m2 m3 buscarArticuloEnIndice_primero_en_preorden [OF p m1 m4] by simp
qed

text \<open>
  Claim C10. The match is containment of \<open>Art\<acute>iculo\<close>, a space and the number, so an
  article entry whose label goes on after the number, as the label of article 51 does after
  the number 5, matches too. Wherever it stands in the index, it is returned when no entry
  before it in the pre-order matches, whatever comes after it.
\<close>

theorem buscarArticuloEnIndice_prefijo_de_numero:
  assumes "preorden (or_vacio (indice_items indice)) = antes @ x # despues"
    and "tipo x = Some (lit ''articulo'')"
    and "titulo x = Some (articulo_prefijo @ n @ resto)"
    and "\<forall>y \<in> set antes. \<not> spec_match n y"
  shows "spec_match n x \<and> buscarArticuloEnIndice indice n = Inr (Some x)"
proof -
  have "str_includes (articulo_prefijo @ n @ resto) (articulo_prefijo @ n)"
    unfolding str_includes_iff
    by (rule exI [of _ "[]"], rule exI [of _ resto]) simp
  then have m: "spec_match n x"
    using assms(2,3) by (simp add: spec_match_def)
  then show ?thesis
    using assms(1,4) by (simp add: buscarArticuloEnIndice_def buscarEnItems_find find_first)
qed

text \<open>
  The search for article 5 in the index that holds the book and then article 5 returns
  article 51, which is nested in the book and so comes before article 5 in the pre-order.
\<close>

theorem buscarArticuloEnIndice_prefijo_de_numero_witness:
  "preorden (or_vacio (indice_items \<lparr> indice_items = Some [libro_I, entrada_5] \<rparr>))
     = [libro_I] @ entrada_51 # [entrada_5] \<and>
   tipo entrada_51 = Some (lit ''articulo'') \<and>
   titulo entrada_51 = Some (articulo_prefijo @ lit ''5'' @ lit ''1'') \<and>
   \<not> spec_match (lit ''5'') libro_I \<and>
   spec_match (lit ''5'') entrada_5 \<and>
   entrada_51 \<noteq> entrada_5 \<and>
   buscarArticuloEnIndice \<lparr> indice_items = Some [libro_I, entrada_5] \<rparr> (lit ''5'')
     = Inr (Some entrada_51)"
proof -
  have p: "preorden (or_vacio (indice_items \<lparr> indice_items = Some [libro_I, entrada_5] \<rparr>))
     = [libro_I] @ entrada_51 # [entrada_5]"
    by (simp add: or_vacio_def libro_I_def entrada_51_def entrada_5_def)
  have t1: "tipo entrada_51 = Some (lit ''articulo'')"
    by (simp add: entrada_51_def)
  have t2: "titulo entrada_51 = Some (articulo_prefijo @ lit ''5'' @ lit ''1'')"
    by (simp add: entrada_51_def lit_def)
  have m3: "\<not> spec_match (lit ''5'') libro_I"
    by (simp add: spec_match_def libro_I_def lit_def)
  have m4: "\<forall>y \<in> set [libro_I]. \<not> spec_match (lit ''5'') y"
    using m3 by simp
  have m5: "spec_match (lit ''5'') entrada_5"
    by (simp add: spec_match_def entrada_5_def articulo_prefijo_def lit_def)
  have d: "entrada_51 \<noteq> entrada_5"
    by (simp add: entrada_51_def entrada_5_def lit_def)
  show ?thesis
    using p t1 t2 m3 m5 d buscarArticuloEnIndice_prefijo_de_numero [OF p t1 t2 m4] by simp
qed

section \<open>Properties of \<open>buscarModificacionesArticulo\<close>\<close>

text \<open>
  The test of a record does not throw, a record that does not qualify leaves the result as
  it is, and one that qualifies extends it.
\<close>

lemma afecta_Inr:
  "afecta a m = Inr (case afectado m of None \<Rightarrow> False
                      | Some s \<Rightarrow> s \<noteq> [] \<and> str_includes s (toString_js a))"
  by (cases "afectado m") (auto simp: afecta_def truthy_str_def call_includes_def)

lemma paso_no_califica:
  "\<not> califica p a f m \<Longrightarrow> paso p a f r m = Inr r"
  by (cases "afectado m")
     (auto simp: paso_def afecta_Inr califica_def Let_def split: bool.splits)

lemma paso_califica:
  "califica p a f m \<Longrightarrow>
   paso p a f r m =
     Inr \<lparr> modificado = True,
           fechaUltimaModificacion =
             (if es_posterior p (new_Date p (fecha m)) (fechaUltimaModificacion r)
              then fecha m else fechaUltimaModificacion r),
           detalles = detalles r @ [detalle_de m] \<rparr>"
  by (cases "afectado m")
     (auto simp: paso_def afecta_Inr califica_def Let_def split: bool.splits)

text \<open>
  For an article id that is not the empty string, the guard on \<open>afectado\<close> adds nothing:
  a record qualifies when \<open>afectado\<close> contains the id and the date is not before the
  reference date.
\<close>

lemma califica_id_no_vacio:
  "toString_js a \<noteq> [] \<Longrightarrow>
   califica p a f m =
     ((\<exists>s. afectado m = Some s \<and> str_includes s (toString_js a)) \<and>
      date_ge (new_Date p (fecha m)) f)"
  by (cases "afectado m") (auto simp: califica_def)

text \<open>The loop over a list in two parts, and the loop as a whole: it always returns.\<close>

lemma recorrer_append:
  "recorrer p a f r (xs @ ys) =
     (case recorrer p a f r xs of Inl e \<Rightarrow> Inl e | Inr r' \<Rightarrow> recorrer p a f r' ys)"
proof (induction xs arbitrary: r)
  case Nil
  show ?case by simp
next
  case (Cons x xs)
  show ?case
  proof (cases "califica p a f x")
    case True
    then show ?thesis using Cons.IH by (simp add: paso_califica)
  next
    case False
    then show ?thesis using Cons.IH by (simp add: paso_no_califica)
  qed
qed

lemma recorrer_total: "\<exists>r'. recorrer p a f r ms = Inr r'"
proof (induction ms arbitrary: r)
  case Nil
  show ?case by simp
next
  case (Cons m ms)
  show ?case
  proof (cases "califica p a f m")
    case True
    then show ?thesis using Cons.IH by (simp add: paso_califica)
  next
    case False
    then show ?thesis using Cons.IH by (simp add: paso_no_califica)
  qed
qed

lemma buscarModificacionesArticulo_recorrer:
  "buscarModificacionesArticulo p an a f =
     recorrer p a f resultado_inicial (modificaciones_de an)"
  by (cases "analisis an"; cases "modificaciones (the (analisis an))")
     (auto simp: buscarModificacionesArticulo_def modificaciones_de_def truthy_obj_def
        get_prop_def for_of_def or_vacio_def)

lemma recorrer_detalles:
  "recorrer p a f r ms = Inr r' \<Longrightarrow>
   detalles r' = detalles r @ map detalle_de (filter (califica p a f) ms) \<and>
   modificado r' = (modificado r \<or> filter (califica p a f) ms \<noteq> [])"
proof (induction ms arbitrary: r)
  case Nil
  then show ?case by simp
next
  case (Cons m ms)
  show ?case
  proof (cases "califica p a f m")
    case True
    then show ?thesis using Cons.IH Cons.prems by (simp add: paso_califica)
  next
    case False
    then show ?thesis using Cons.IH Cons.prems by (simp add: paso_no_califica)
  qed
qed

lemma califica_fecha_valida:
  "califica p a f m \<Longrightarrow> \<exists>t. new_Date p (fecha m) = Some t"
  by (cases "new_Date p (fecha m)") (auto simp: califica_def date_ge_def)

lemma fecha_valida_truthy:
  "p [] = None \<Longrightarrow> new_Date p v = Some t \<Longrightarrow> truthy_str v"
  by (cases v) (auto simp: new_Date_def truthy_str_def)

text \<open>
  The invariant of the loop on \<open>fechaUltimaModificacion\<close>, by induction on the amendments
  read so far: it is the date string of the first of the latest qualifying records. A
  qualifying record has a valid date, so its date string is not empty and the stored one
  is truthy when the next record is compared with it.
\<close>

lemma recorrer_ultima:
  assumes vacia: "p [] = None"
  shows "\<exists>r. recorrer p a f resultado_inicial ms = Inr r \<and>
             (if filter (califica p a f) ms = [] then fechaUltimaModificacion r = None
              else (\<exists>i. es_primera_maxima p (filter (califica p a f) ms) i \<and>
                        fechaUltimaModificacion r = fecha (filter (califica p a f) ms ! i)))"
proof (induction ms rule: rev_induct)
  case Nil
  show ?case by (simp add: resultado_inicial_def)
next
  case (snoc m ms)
  let ?qs = "filter (califica p a f) ms"
  let ?nd = "\<lambda>q. new_Date p (fecha q)"
  from snoc obtain r where
    r: "recorrer p a f resultado_inicial ms = Inr r" and
    inv: "if ?qs = [] then fechaUltimaModificacion r = None
          else (\<exists>i. es_primera_maxima p ?qs i \<and> fechaUltimaModificacion r = fecha (?qs ! i))"
    by blast
  have step: "recorrer p a f resultado_inicial (ms @ [m]) = paso p a f r m"
    by (cases "califica p a f m") (simp_all add: recorrer_append r paso_califica paso_no_califica)
  show ?case
  proof (cases "califica p a f m")
    case False
    then show ?thesis using r inv step by (simp add: paso_no_califica)
  next
    case True
    then obtain t where t: "?nd m = Some t" using califica_fecha_valida by blast
    let ?r' = "\<lparr> modificado = True,
           fechaUltimaModificacion =
             (if es_posterior p (?nd m) (fechaUltimaModificacion r)
              then fecha m else fechaUltimaModificacion r),
           detalles = detalles r @ [detalle_de m] \<rparr>"
    have r': "recorrer p a f resultado_inicial (ms @ [m]) = Inr ?r'"
      using step True by (simp add: paso_califica)
    have filt: "filter (califica p a f) (ms @ [m]) = ?qs @ [m]"
      using True by simp
    have "\<exists>i. es_primera_maxima p (?qs @ [m]) i \<and>
               fechaUltimaModificacion ?r' = fecha ((?qs @ [m]) ! i)"
    proof (cases "?qs = []")
      case True
      then have "fechaUltimaModificacion r = None" using inv by simp
      then have "fechaUltimaModificacion ?r' = fecha m"
        by (simp add: es_posterior_def truthy_str_def)
      moreover have "es_primera_maxima p (?qs @ [m]) 0"
        using True t by (simp add: es_primera_maxima_def date_ge_def)
      ultimately show ?thesis using True by (intro exI [of _ 0]) simp
    next
      case False
      then obtain i where i: "es_primera_maxima p ?qs i"
        and u: "fechaUltimaModificacion r = fecha (?qs ! i)"
        using inv by auto
      have ilt: "i < length ?qs" using i by (simp add: es_primera_maxima_def)
      have allge: "\<forall>q \<in> set ?qs. date_ge (?nd (?qs ! i)) (?nd q)"
        using i by (simp add: es_primera_maxima_def list_all_iff)
      have allgt: "\<forall>q \<in> set (take i ?qs). date_gt (?nd (?qs ! i)) (?nd q)"
        using i by (simp add: es_primera_maxima_def list_all_iff)
      have "?qs ! i \<in> set ?qs" by (rule nth_mem [OF ilt])
      then have "califica p a f (?qs ! i)" by simp
      then obtain ti where ti: "?nd (?qs ! i) = Some ti"
        using califica_fecha_valida by blast
      have tr: "truthy_str (fechaUltimaModificacion r)"
        using fecha_valida_truthy [of p "fecha (?qs ! i)" ti] vacia ti u by simp
      have post: "es_posterior p (?nd m) (fechaUltimaModificacion r) = (ti < t)"
        using tr t ti u by (simp add: es_posterior_def date_gt_def)
      show ?thesis
      proof (cases "ti < t")
        case True
        have "fechaUltimaModificacion ?r' = fecha ((?qs @ [m]) ! length ?qs)"
          using post True by simp
        moreover have "es_primera_maxima p (?qs @ [m]) (length ?qs)"
          unfolding es_primera_maxima_def list_all_iff
        proof (intro conjI ballI)
          show "length ?qs < length (?qs @ [m])" by simp
        next
          fix q assume "q \<in> set (?qs @ [m])"
          then consider "q = m" | "q \<in> set ?qs" by auto
          then show "date_ge (?nd ((?qs @ [m]) ! length ?qs)) (?nd q)"
          proof cases
            case 1
            then show ?thesis using t by (simp add: date_ge_def)
          next
            case 2
            then have "date_ge (Some ti) (?nd q)" using allge ti by auto
            then show ?thesis using t True
              by (auto simp: date_ge_def split: option.splits)
          qed
        next
          fix q assume "q \<in> set (take (length ?qs) (?qs @ [m]))"
          then have "q \<in> set ?qs" by simp
          then have "date_ge (Some ti) (?nd q)" using allge ti by auto
          then show "date_gt (?nd ((?qs @ [m]) ! length ?qs)) (?nd q)"
            using t True by (auto simp: date_ge_def date_gt_def split: option.splits)
        qed
        ultimately show ?thesis by blast
      next
        case False
        have "fechaUltimaModificacion ?r' = fecha ((?qs @ [m]) ! i)"
          using post False u ilt by (simp add: nth_append)
        moreover have "es_primera_maxima p (?qs @ [m]) i"
          unfolding es_primera_maxima_def list_all_iff
        proof (intro conjI ballI)
          show "i < length (?qs @ [m])" using ilt by simp
        next
          fix q assume "q \<in> set (?qs @ [m])"
          then consider "q = m" | "q \<in> set ?qs" by auto
          then show "date_ge (?nd ((?qs @ [m]) ! i)) (?nd q)"
          proof cases
            case 1
            then show ?thesis using t ti False ilt by (simp add: date_ge_def nth_append)
          next
            case 2
            then show ?thesis using allge ilt by (simp add: nth_append)
          qed
        next
          fix q assume "q \<in> set (take i (?qs @ [m]))"
          then have "q \<in> set (take i ?qs)" using ilt by simp
          then show "date_gt (?nd ((?qs @ [m]) ! i)) (?nd q)"
            using allgt ilt by (simp add: nth_append)
        qed
        ultimately show ?thesis by blast
      qed
    qed
    then show ?thesis using r' filt by simp
  qed
qed

text \<open>
  Claim C1. For every analysis, article id and reference date, the Amendment Resolver
  returns, and \<open>modificado\<close> is true exactly when some record of the amendments collection
  qualifies. When it is true, \<open>fechaUltimaModificacion\<close> is the date of the latest
  qualifying record, the first one in scan order among equally late ones; when it is false,
  \<open>fechaUltimaModificacion\<close> is null. The engine's \<open>Date.parse\<close> takes the empty string to
  \<open>NaN\<close>.
\<close>

theorem buscarModificacionesArticulo_modificado_y_ultima:
  assumes "parse [] = None"
  shows "\<exists>r. buscarModificacionesArticulo parse an articuloId fechaReferencia = Inr r \<and>
     modificado r = (\<exists>m \<in> set (modificaciones_de an). califica parse articuloId fechaReferencia m) \<and>
     (if modificado r
      then (\<exists>i. es_primera_maxima parse
                   (filter (califica parse articuloId fechaReferencia) (modificaciones_de an)) i \<and>
                 fechaUltimaModificacion r =
                   fecha (filter (califica parse articuloId fechaReferencia) (modificaciones_de an) ! i))
      else fechaUltimaModificacion r = None)"
proof -
  let ?ms = "modificaciones_de an"
  let ?qs = "filter (califica parse articuloId fechaReferencia) ?ms"
  obtain r where r: "recorrer parse articuloId fechaReferencia resultado_inicial ?ms = Inr r"
    and u: "if ?qs = [] then fechaUltimaModificacion r = None
            else (\<exists>i. es_primera_maxima parse ?qs i \<and> fechaUltimaModificacion r = fecha (?qs ! i))"
    using recorrer_ultima [where p = parse and a = articuloId and f = fechaReferencia and ms = ?ms]
      assms by blast
  have m: "modificado r = (?qs \<noteq> [])"
    using recorrer_detalles [OF r] by (simp add: resultado_inicial_def)
  have e: "(?qs \<noteq> []) = (\<exists>m \<in> set ?ms. califica parse articuloId fechaReferencia m)"
    by (simp add: filter_empty_conv)
  show ?thesis
    using r u m e by (auto simp: buscarModificacionesArticulo_recorrer)
qed

text \<open>
  With reference date 2019-01-01 and the amendments of January 2020, June 2020 and one of
  another article, the first two qualify and the second of them is the latest.
\<close>

theorem buscarModificacionesArticulo_modificado_y_ultima_witness:
  "parse_iso [] = None \<and>
   buscarModificacionesArticulo parse_iso (analisis_con [mod_enero, mod_junio, mod_otro])
       (Some (lit ''a51'')) (parse_iso (lit ''2019-01-01'')) =
     Inr \<lparr> modificado = True, fechaUltimaModificacion = Some (lit ''2020-06-01''),
           detalles = [detalle_de mod_enero, detalle_de mod_junio] \<rparr> \<and>
   filter (califica parse_iso (Some (lit ''a51'')) (parse_iso (lit ''2019-01-01'')))
       (modificaciones_de (analisis_con [mod_enero, mod_junio, mod_otro])) = [mod_enero, mod_junio] \<and>
   es_primera_maxima parse_iso [mod_enero, mod_junio] 1"
proof -
  have h: "parse_iso [] = None" by (simp add: parse_iso_def)
  have a: "buscarModificacionesArticulo parse_iso (analisis_con [mod_enero, mod_junio, mod_otro])
       (Some (lit ''a51'')) (parse_iso (lit ''2019-01-01'')) =
     Inr \<lparr> modificado = True, fechaUltimaModificacion = Some (lit ''2020-06-01''),
           detalles = [detalle_de mod_enero, detalle_de mod_junio] \<rparr>"
    by code_simp
  have b: "filter (califica parse_iso (Some (lit ''a51'')) (parse_iso (lit ''2019-01-01'')))
       (modificaciones_de (analisis_con [mod_enero, mod_junio, mod_otro])) = [mod_enero, mod_junio]"
    by code_simp
  have c: "es_primera_maxima parse_iso [mod_enero, mod_junio] 1"
    by code_simp
  show ?thesis
    using h a b c
      buscarModificacionesArticulo_modificado_y_ultima [where parse = parse_iso
        and an = "analisis_con [mod_enero, mod_junio, mod_otro]"
        and articuloId = "Some (lit ''a51'')"
        and fechaReferencia = "parse_iso (lit ''2019-01-01'')"]
    by simp
qed

text \<open>
  Claim C5. A record of the amendments collection whose \<open>afectado\<close> is not empty and
  contains the article id, and whose date is exactly the reference date, qualifies: the
  resolver reports \<open>modificado\<close> and lists the record among the details.
\<close>

theorem buscarModificacionesArticulo_frontera_inclusiva:
  assumes "m \<in> set (modificaciones_de an)"
    and "afectado m = Some s" and "s \<noteq> []" and "str_includes s (toString_js articuloId)"
    and "new_Date parse (fecha m) = Some t"
  shows "califica parse articuloId (Some t) m \<and>
         (\<exists>r. buscarModificacionesArticulo parse an articuloId (Some t) = Inr r \<and>
              modificado r \<and> detalle_de m \<in> set (detalles r))"
proof -
  have c: "califica parse articuloId (Some t) m"
    using assms by (simp add: califica_def date_ge_def)
  obtain r where r: "recorrer parse articuloId (Some t) resultado_inicial (modificaciones_de an) = Inr r"
    using recorrer_total by blast
  have d: "detalles r = map detalle_de (filter (califica parse articuloId (Some t)) (modificaciones_de an))"
    and mo: "modificado r = (filter (califica parse articuloId (Some t)) (modificaciones_de an) \<noteq> [])"
    using recorrer_detalles [OF r] by (simp_all add: resultado_inicial_def)
  have q: "m \<in> set (filter (califica parse articuloId (Some t)) (modificaciones_de an))"
    using c assms(1) by simp
  then have "filter (califica parse articuloId (Some t)) (modificaciones_de an) \<noteq> []"
    by (metis empty_iff list.set(1))
  moreover have "detalle_de m \<in> set (detalles r)"
    using q d by (metis imageI list.set_map)
  ultimately show ?thesis
    using c r mo by (simp add: buscarModificacionesArticulo_recorrer)
qed

text \<open>The amendment of 2020-06-01 against the reference date 2020-06-01.\<close>

theorem buscarModificacionesArticulo_frontera_inclusiva_witness:
  "mod_junio \<in> set (modificaciones_de (analisis_con [mod_enero, mod_junio])) \<and>
   afectado mod_junio = Some (lit ''a50 a51 a52'') \<and>
   str_includes (lit ''a50 a51 a52'') (toString_js (Some (lit ''a51''))) \<and>
   new_Date parse_iso (fecha mod_junio) = Some 1590969600000 \<and>
   new_Date parse_iso (Some (lit ''2020-06-01'')) = Some 1590969600000 \<and>
   buscarModificacionesArticulo parse_iso (analisis_con [mod_enero, mod_junio]) (Some (lit ''a51''))
       (new_Date parse_iso (Some (lit ''2020-06-01''))) =
     Inr \<lparr> modificado = True, fechaUltimaModificacion = Some (lit ''2020-06-01''),
           detalles = [detalle_de mod_junio] \<rparr>"
proof -
  have h1: "mod_junio \<in> set (modificaciones_de (analisis_con [mod_enero, mod_junio]))"
    by (simp add: modificaciones_de_def analisis_con_def or_vacio_def)
  have h2: "afectado mod_junio = Some (lit ''a50 a51 a52'')"
    by (simp add: mod_junio_def)
  have h3: "lit ''a50 a51 a52'' \<noteq> []"
    by (simp add: lit_def)
  have h4: "str_includes (lit ''a50 a51 a52'') (toString_js (Some (lit ''a51'')))"
    by code_simp
  have h5: "new_Date parse_iso (fecha mod_junio) = Some 1590969600000"
    by code_simp
  have h6: "new_Date parse_iso (Some (lit ''2020-06-01'')) = Some 1590969600000"
    by code_simp
  have e: "buscarModificacionesArticulo parse_iso (analisis_con [mod_enero, mod_junio])
       (Some (lit ''a51'')) (new_Date parse_iso (Some (lit ''2020-06-01''))) =
     Inr \<lparr> modificado = True, fechaUltimaModificacion = Some (lit ''2020-06-01''),
           detalles = [detalle_de mod_junio] \<rparr>"
    by code_simp
  show ?thesis
    using h1 h2 h4 h5 h6 e buscarModificacionesArticulo_frontera_inclusiva [OF h1 h2 h3 h4 h5]
    by simp
qed

text \<open>
  Claim C6. The details are one entry per qualifying record, in the order of the amendments
  collection; each entry has the record's date, and its reference and its text, which are
  \<open>No disponible\<close> when the record has none.
\<close>

theorem buscarModificacionesArticulo_detalles_en_orden:
  "(\<exists>r. buscarModificacionesArticulo parse an articuloId fechaReferencia = Inr r \<and>
        detalles r =
          map detalle_de (filter (califica parse articuloId fechaReferencia) (modificaciones_de an))) \<and>
   detalle_de \<lparr> afectado = af, fecha = fe, referencia = None, texto = None \<rparr> =
     \<lparr> d_fecha = fe, d_referencia = lit ''No disponible'', d_texto = lit ''No disponible'' \<rparr> \<and>
   detalle_de \<lparr> afectado = af, fecha = fe, referencia = Some (c # cs), texto = Some (x # xs) \<rparr> =
     \<lparr> d_fecha = fe, d_referencia = c # cs, d_texto = x # xs \<rparr>"
proof -
  obtain r where r: "recorrer parse articuloId fechaReferencia resultado_inicial (modificaciones_de an) = Inr r"
    using recorrer_total by blast
  have "detalles r =
          map detalle_de (filter (califica parse articuloId fechaReferencia) (modificaciones_de an))"
    using recorrer_detalles [OF r] by (simp add: resultado_inicial_def)
  then have "\<exists>r. buscarModificacionesArticulo parse an articuloId fechaReferencia = Inr r \<and>
        detalles r =
          map detalle_de (filter (califica parse articuloId fechaReferencia) (modificaciones_de an))"
    using r by (simp add: buscarModificacionesArticulo_recorrer)
  then show ?thesis
    by (simp add: detalle_de_def or_texto_def)
qed

text \<open>
  The amendment of June stands before the one of January in the collection, and so do
  their details.
\<close>

theorem buscarModificacionesArticulo_detalles_en_orden_witness:
  "buscarModificacionesArticulo parse_iso (analisis_con [mod_junio, mod_otro, mod_enero])
       (Some (lit ''a51'')) (parse_iso (lit ''2019-01-01'')) =
     Inr \<lparr> modificado = True, fechaUltimaModificacion = Some (lit ''2020-06-01''),
           detalles =
             [\<lparr> d_fecha = Some (lit ''2020-06-01''), d_referencia = lit ''No disponible'',
                 d_texto = lit ''Se modifica'' \<rparr>,
              \<lparr> d_fecha = Some (lit ''2020-01-01''), d_referencia = lit ''BOE-A-2020-1'',
                 d_texto = lit ''No disponible'' \<rparr>] \<rparr>"
proof -
  have e: "buscarModificacionesArticulo parse_iso (analisis_con [mod_junio, mod_otro, mod_enero])
       (Some (lit ''a51'')) (parse_iso (lit ''2019-01-01'')) =
     Inr \<lparr> modificado = True, fechaUltimaModificacion = Some (lit ''2020-06-01''),
           detalles =
             [\<lparr> d_fecha = Some (lit ''2020-06-01''), d_referencia = lit ''No disponible'',
                 d_texto = lit ''Se modifica'' \<rparr>,
              \<lparr> d_fecha = Some (lit ''2020-01-01''), d_referencia = lit ''BOE-A-2020-1'',
                 d_texto = lit ''No disponible'' \<rparr>] \<rparr>"
    by code_simp
  show ?thesis
    using e buscarModificacionesArticulo_detalles_en_orden
      [where parse = parse_iso and an = "analisis_con [mod_junio, mod_otro, mod_enero]"
         and articuloId = "Some (lit ''a51'')" and fechaReferencia = "parse_iso (lit ''2019-01-01'')"]
    by simp
qed

text \<open>
  Claim C7. An analysis with no \<open>analisis\<close> field, or with no \<open>modificaciones\<close> inside it,
  gives the initial result, not modified, no date and no details, and nothing is thrown.
\<close>

theorem buscarModificacionesArticulo_sin_modificaciones:
  assumes "analisis an = None \<or> (\<exists>a. analisis an = Some a \<and> modificaciones a = None)"
  shows "buscarModificacionesArticulo parse an articuloId fechaReferencia =
           Inr \<lparr> modificado = False, fechaUltimaModificacion = None, detalles = [] \<rparr>"
  using assms
  by (auto simp: buscarModificacionesArticulo_def truthy_obj_def get_prop_def resultado_inicial_def)

text \<open>Both shapes of an analysis without amendments.\<close>

theorem buscarModificacionesArticulo_sin_modificaciones_witness:
  "buscarModificacionesArticulo parse_iso \<lparr> analisis = None \<rparr> (Some (lit ''a51''))
       (parse_iso (lit ''2019-01-01'')) =
     Inr \<lparr> modificado = False, fechaUltimaModificacion = None, detalles = [] \<rparr> \<and>
   buscarModificacionesArticulo parse_iso \<lparr> analisis = Some \<lparr> modificaciones = None \<rparr> \<rparr>
       (Some (lit ''a51'')) (parse_iso (lit ''2019-01-01'')) =
     Inr \<lparr> modificado = False, fechaUltimaModificacion = None, detalles = [] \<rparr>"
proof -
  have h1: "analisis \<lparr> analisis = None \<rparr> = None \<or>
            (\<exists>a. analisis \<lparr> analisis = None \<rparr> = Some a \<and> modificaciones a = None)"
    by simp
  have h2: "analisis \<lparr> analisis = Some \<lparr> modificaciones = None \<rparr> \<rparr> = None \<or>
            (\<exists>a. analisis \<lparr> analisis = Some \<lparr> modificaciones = None \<rparr> \<rparr> = Some a \<and>
                 modificaciones a = None)"
    by simp
  show ?thesis
    using buscarModificacionesArticulo_sin_modificaciones [OF h1]
      buscarModificacionesArticulo_sin_modificaciones [OF h2]
    by simp
qed

text \<open>
  Claim C8. A record whose date string is not a date does not qualify, whatever its
  \<open>afectado\<close>, and the resolver goes on: its result on a collection that holds the record is
  its result on the collection without the record.
\<close>

theorem buscarModificacionesArticulo_fecha_invalida:
  assumes "fecha m = Some s" and "parse s = None"
  shows "\<not> califica parse articuloId fechaReferencia m \<and>
         (\<exists>r. buscarModificacionesArticulo parse (analisis_con (antes @ m # despues))
                 articuloId fechaReferencia = Inr r \<and>
              buscarModificacionesArticulo parse (analisis_con (antes @ despues))
                 articuloId fechaReferencia = Inr r)"
proof -
  have n: "\<not> califica parse articuloId fechaReferencia m"
    using assms by (simp add: califica_def new_Date_def date_ge_def)
  have ms: "modificaciones_de (analisis_con xs) = xs" for xs
    by (simp add: modificaciones_de_def analisis_con_def or_vacio_def)
  obtain r0 where "recorrer parse articuloId fechaReferencia resultado_inicial antes = Inr r0"
    using recorrer_total by blast
  then have "recorrer parse articuloId fechaReferencia resultado_inicial (antes @ m # despues) =
        recorrer parse articuloId fechaReferencia resultado_inicial (antes @ despues)"
    using n by (simp add: recorrer_append paso_no_califica)
  moreover obtain r where
    "recorrer parse articuloId fechaReferencia resultado_inicial (antes @ despues) = Inr r"
    using recorrer_total by blast
  ultimately show ?thesis
    using n by (simp add: buscarModificacionesArticulo_recorrer ms)
qed

text \<open>The record dated \<open>pronto\<close> between the amendments of January and June.\<close>

theorem buscarModificacionesArticulo_fecha_invalida_witness:
  "fecha mod_sin_fecha_valida = Some (lit ''pronto'') \<and>
   parse_iso (lit ''pronto'') = None \<and>
   str_includes (lit ''a51'') (toString_js (Some (lit ''a51''))) \<and>
   buscarModificacionesArticulo parse_iso (analisis_con ([mod_enero] @ mod_sin_fecha_valida # [mod_junio]))
       (Some (lit ''a51'')) (parse_iso (lit ''2019-01-01'')) =
     Inr \<lparr> modificado = True, fechaUltimaModificacion = Some (lit ''2020-06-01''),
           detalles = [detalle_de mod_enero, detalle_de mod_junio] \<rparr>"
proof -
  have h1: "fecha mod_sin_fecha_valida = Some (lit ''pronto'')"
    by (simp add: mod_sin_fecha_valida_def)
  have h2: "parse_iso (lit ''pronto'') = None"
    by code_simp
  have h3: "str_includes (lit ''a51'') (toString_js (Some (lit ''a51'')))"
    by code_simp
  have e: "buscarModificacionesArticulo parse_iso (analisis_con ([mod_enero] @ [mod_junio]))
       (Some (lit ''a51'')) (parse_iso (lit ''2019-01-01'')) =
     Inr \<lparr> modificado = True, fechaUltimaModificacion = Some (lit ''2020-06-01''),
           detalles = [detalle_de mod_enero, detalle_de mod_junio] \<rparr>"
    by code_simp
  show ?thesis
    using h1 h2 h3 e
      buscarModificacionesArticulo_fecha_invalida [where parse = parse_iso
        and m = mod_sin_fecha_valida and s = "lit ''pronto''"
        and articuloId = "Some (lit ''a51'')" and fechaReferencia = "parse_iso (lit ''2019-01-01'')"
        and antes = "[mod_enero]" and despues = "[mod_junio]"]
    by auto
qed

section \<open>Properties of \<open>comprobarModificacionArticulo\<close>\<close>

text \<open>
  Claim C2. When the fetch of the index fails, or the article is found and the fetch of the
  analysis fails, the orchestrator returns the object with \<open>encontrado\<close> false and the
  failure's message in its \<open>error\<close> field. On every input it returns an object and throws
  nothing.
\<close>

theorem comprobarModificacionArticulo_captura_errores:
  assumes "obtenerIndice get_indice docId = Inl e \<or>
           (\<exists>indice articulo. obtenerIndice get_indice docId = Inr indice \<and>
               buscarArticuloEnIndice indice numeroArticulo = Inr (Some articulo) \<and>
               obtenerAnalisisLey get_analisis docId = Inl e)"
  shows "comprobarModificacionArticulo get_indice get_analisis parse docId numeroArticulo fechaReferencia
           = Inr (con_error e) \<and>
         encontrado (con_error e) = False \<and>
         error_mensaje (con_error e) = Some (message e) \<and>
         (\<forall>gi ga p d n f. \<exists>r. comprobarModificacionArticulo gi ga p d n f = Inr r)"
proof -
  have "comprobar_try get_indice get_analisis parse docId numeroArticulo fechaReferencia = Inl e"
    using assms by (auto simp: comprobar_try_def)
  then have "comprobarModificacionArticulo get_indice get_analisis parse docId numeroArticulo
               fechaReferencia = Inr (con_error e)"
    by (simp add: comprobarModificacionArticulo_def)
  moreover have "\<exists>r. comprobarModificacionArticulo gi ga p d n f = Inr r" for gi ga p d n f
    by (cases "comprobar_try gi ga p d n f") (simp_all add: comprobarModificacionArticulo_def)
  ultimately show ?thesis
    by (simp add: con_error_def)
qed

text \<open>A rejected index request, and a rejected analysis request after article 51 was found.\<close>

theorem comprobarModificacionArticulo_captura_errores_witness:
  "obtenerIndice indice_falla (lit ''BOE-A-1889-4763'')
     = Inl (Error (lit ''Request failed with status code 404'')) \<and>
   comprobarModificacionArticulo indice_falla axios_analisis_51 parse_iso (lit ''BOE-A-1889-4763'')
       (lit ''51'') (parse_iso (lit ''2019-01-01''))
     = Inr (con_error (Error (lit ''Request failed with status code 404''))) \<and>
   obtenerIndice axios_indice_51 (lit ''BOE-A-1889-4763'')
     = Inr \<lparr> indice_items = Some [libro_I, entrada_51_bis] \<rparr> \<and>
   buscarArticuloEnIndice \<lparr> indice_items = Some [libro_I, entrada_51_bis] \<rparr> (lit ''51'')
     = Inr (Some entrada_51) \<and>
   obtenerAnalisisLey analisis_falla (lit ''BOE-A-1889-4763'')
     = Inl (Error (lit ''Request failed with status code 404'')) \<and>
   comprobarModificacionArticulo axios_indice_51 analisis_falla parse_iso (lit ''BOE-A-1889-4763'')
       (lit ''51'') (parse_iso (lit ''2019-01-01''))
     = Inr \<lparr> encontrado = False, mensaje = None,
             error_mensaje = Some (lit ''Request failed with status code 404''),
             c_articuloId = None, c_titulo = None, c_modificado = None,
             c_fechaUltimaModificacion = None, detallesModificacion = None \<rparr>"
proof -
  let ?e = "Error (lit ''Request failed with status code 404'')"
  let ?d = "lit ''BOE-A-1889-4763''"
  have a1: "obtenerIndice indice_falla ?d = Inl ?e"
    by (simp add: obtenerIndice_def indice_falla_def)
  have a2: "obtenerIndice axios_indice_51 ?d = Inr \<lparr> indice_items = Some [libro_I, entrada_51_bis] \<rparr>"
    by (simp add: obtenerIndice_def axios_indice_51_def)
  have a3: "buscarArticuloEnIndice \<lparr> indice_items = Some [libro_I, entrada_51_bis] \<rparr> (lit ''51'')
     = Inr (Some entrada_51)"
    by code_simp
  have a4: "obtenerAnalisisLey analisis_falla ?d = Inl ?e"
    by (simp add: obtenerAnalisisLey_def analisis_falla_def)
  have h1: "obtenerIndice indice_falla ?d = Inl ?e \<or>
           (\<exists>indice articulo. obtenerIndice indice_falla ?d = Inr indice \<and>
               buscarArticuloEnIndice indice (lit ''51'') = Inr (Some articulo) \<and>
               obtenerAnalisisLey axios_analisis_51 ?d = Inl ?e)"
    using a1 by simp
  have h2: "obtenerIndice axios_indice_51 ?d = Inl ?e \<or>
           (\<exists>indice articulo. obtenerIndice axios_indice_51 ?d = Inr indice \<and>
               buscarArticuloEnIndice indice (lit ''51'') = Inr (Some articulo) \<and>
               obtenerAnalisisLey analisis_falla ?d = Inl ?e)"
    using a2 a3 a4 by simp
  show ?thesis
    using a1 a2 a3 a4
      comprobarModificacionArticulo_captura_errores [OF h1, of parse_iso "parse_iso (lit ''2019-01-01'')"]
      comprobarModificacionArticulo_captura_errores [OF h2, of parse_iso "parse_iso (lit ''2019-01-01'')"]
    by (simp add: con_error_def)
qed

text \<open>
  The first three end-to-end scenarios: article 51 amended in January 2020, seen from 2019
  and from 2021, and an article that the index does not have.
\<close>

lemma escenario_1:
  "comprobarModificacionArticulo axios_indice_51 axios_analisis_51 parse_iso (lit ''BOE-A-1889-4763'')
       (lit ''51'') (parse_iso (lit ''2019-01-01''))
   = Inr \<lparr> encontrado = True, mensaje = None, error_mensaje = None,
       c_articuloId = Some (lit ''a51''), c_titulo = Some (articulo_prefijo @ lit ''51''),
       c_modificado = Some True,
       c_fechaUltimaModificacion = Some (lit ''2020-01-01''),
       detallesModificacion = Some [detalle_de mod_enero] \<rparr>"
  by code_simp

lemma escenario_2:
  "comprobarModificacionArticulo axios_indice_51 axios_analisis_51 parse_iso (lit ''BOE-A-1889-4763'')
       (lit ''51'') (parse_iso (lit ''2021-01-01''))
   = Inr \<lparr> encontrado = True, mensaje = None, error_mensaje = None,
       c_articuloId = Some (lit ''a51''), c_titulo = Some (articulo_prefijo @ lit ''51''),
       c_modificado = Some False,
       c_fechaUltimaModificacion = None,
       detallesModificacion = Some [] \<rparr>"
  by code_simp

lemma escenario_3:
  "comprobarModificacionArticulo axios_indice_51 axios_analisis_51 parse_iso (lit ''BOE-A-1889-4763'')
       (lit ''99'') (parse_iso (lit ''2021-01-01''))
   = Inr (no_encontrado (lit ''99'') (lit ''BOE-A-1889-4763''))"
  by code_simp

end
